theory Spec2Isabelle
  imports Main "HOL-Library.Sublist"
begin

section \<open>The audit external-anchors-use-rel-noopener\<close>

text \<open>
  A shallow embedding of
  \<^verbatim>\<open>lighthouse-core/audits/dobetterweb/external-anchors-use-rel-noopener.js\<close>,
  the static method \<^verbatim>\<open>audit(artifacts)\<close> (lines 53 to 98).

  JavaScript strings are modelled as \<^typ>\<open>string\<close>. A property of an anchor object that is
  absent (\<^verbatim>\<open>undefined\<close>) is \<^term>\<open>None\<close>; a property holding a string is \<^term>\<open>Some s\<close>.
\<close>

subsection \<open>Data\<close>

text \<open>
  One shape serves both the elements of \<^verbatim>\<open>artifacts.AnchorElements\<close> and the objects
  built by the final \<^verbatim>\<open>.map\<close> (every property a string). The declared type of an
  anchor makes \<^verbatim>\<open>target\<close>, \<^verbatim>\<open>rel\<close> and \<^verbatim>\<open>outerHTML\<close> strings and lets \<^verbatim>\<open>href\<close> be
  absent; the body defaults each of the four with \<^verbatim>\<open>||\<close>, so the model lets each be
  absent and says what the body does then.
\<close>

record 'a anchor_fields =
  href :: 'a
  target :: 'a
  rel :: 'a
  outerHTML :: 'a

type_synonym anchor = "string option anchor_fields"
type_synonym summary = "string anchor_fields"

text \<open>\<^verbatim>\<open>artifacts.URL.finalUrl\<close> and \<^verbatim>\<open>artifacts.AnchorElements\<close>.\<close>

record artifacts =
  finalUrl :: string
  AnchorElements :: "anchor list"

text \<open>
  The returned product. The local \<^verbatim>\<open>failingAnchors\<close> is returned as
  \<^verbatim>\<open>extendedInfo.value\<close> and as the rows of \<^verbatim>\<open>details\<close>; no property below reads
  the table headings, and \<^verbatim>\<open>Audit.makeTableDetails\<close> lives in another module, so the
  rows are kept once, under the name of the local.
\<close>

record product =
  score :: nat
  failingAnchors :: "summary list"
  warnings :: "string list"

text \<open>
  The two exceptions the function body can raise: the \<^verbatim>\<open>URL\<close> constructor rejecting
  the page URL (line 56, outside any \<^verbatim>\<open>try\<close>), and a method call on an absent
  \<^verbatim>\<open>rel\<close> (lines 58 and 59), which no anchor of the declared type has.
\<close>

datatype error = Invalid_URL | TypeError_rel_undefined

subsection \<open>The pieces of JavaScript the body uses\<close>

text \<open>
  \<^verbatim>\<open>new URL(s).host\<close> comes from \<^verbatim>\<open>lib/url-shim.js\<close>, which is not part of the audited
  file: the parser is a parameter of the model. It maps a string to the host of the parsed
  URL, and to \<^term>\<open>None\<close> where the constructor throws.
\<close>

type_synonym url_parser = "string \<Rightarrow> string option"

text \<open>The string a JavaScript value is converted to when passed to the constructor.\<close>

definition js_string :: "string option \<Rightarrow> string" where
  "js_string v = (case v of None \<Rightarrow> ''undefined'' | Some s \<Rightarrow> s)"

text \<open>\<^verbatim>\<open>v || d\<close> for a value that is absent or a string: absent and empty are falsy.\<close>

definition js_or :: "string option \<Rightarrow> string \<Rightarrow> string" where
  "js_or v d = (case v of None \<Rightarrow> d | Some s \<Rightarrow> if s = [] then d else s)"

text \<open>\<^verbatim>\<open>!v\<close> for such a value.\<close>

definition js_not :: "string option \<Rightarrow> bool" where
  "js_not v = (case v of None \<Rightarrow> True | Some s \<Rightarrow> s = [])"

text \<open>\<^verbatim>\<open>s.includes(t)\<close> and \<^verbatim>\<open>s.startsWith(t)\<close>.\<close>

definition js_includes :: "string \<Rightarrow> string \<Rightarrow> bool" where
  "js_includes s t = sublist t s"

definition startsWith :: "string \<Rightarrow> string \<Rightarrow> bool" where
  "startsWith s t = prefix t s"

text \<open>
  \<^verbatim>\<open>s.toLowerCase()\<close>: the letters A to Z are mapped to a to z. No other character is
  mapped to one of the letters of \<^verbatim>\<open>http\<close>, the only use made of the result.
\<close>

definition lower_char :: "char \<Rightarrow> char" where
  "lower_char c =
     (case map_of (zip ''ABCDEFGHIJKLMNOPQRSTUVWXYZ'' ''abcdefghijklmnopqrstuvwxyz'') c of
        None \<Rightarrow> c
      | Some d \<Rightarrow> d)"

definition toLowerCase :: "string \<Rightarrow> string" where
  "toLowerCase s = map lower_char s"

text \<open>
  Modelled from the spec: \<^verbatim>\<open>str_\<close> is made by \<^verbatim>\<open>i18n.createMessageInstanceIdFn\<close>
  of \<^verbatim>\<open>lib/i18n/i18n.js\<close>, which is missing. The message is \<^verbatim>\<open>UIStrings.warning\<close> (lines
  25 and 26) with the placeholder \<^verbatim>\<open>{anchorHTML}\<close> replaced by the value passed, so that it
  identifies the anchor by its \<^verbatim>\<open>outerHTML\<close> snippet.
\<close>

definition str_warning :: "string option \<Rightarrow> string" where
  "str_warning anchorHTML =
     ''Unable to determine the destination for anchor ('' @ js_string anchorHTML @
     ''). If not used as a hyperlink, consider removing target=_blank.''"

subsection \<open>The filter chain\<close>

text \<open>
  Lines 58 and 59, the callback of the first \<^verbatim>\<open>filter\<close>. \<^verbatim>\<open>&&\<close> evaluates its right
  operand only when the left one is true, so \<^verbatim>\<open>rel\<close> is read only for a target
  \<^verbatim>\<open>_blank\<close>; calling \<^verbatim>\<open>includes\<close> on an absent \<^verbatim>\<open>rel\<close> throws.
\<close>

definition blank_without_noopener :: "anchor \<Rightarrow> error + bool" where
  "blank_without_noopener a =
     (if target a \<noteq> Some ''_blank'' then Inr False
      else case rel a of
        None \<Rightarrow> Inl TypeError_rel_undefined
      | Some r \<Rightarrow> Inr (\<not> js_includes r ''noopener'' \<and> \<not> js_includes r ''noreferrer''))"

text \<open>The first \<^verbatim>\<open>filter\<close>: the first callback that throws ends the whole call.\<close>

fun filter_blank :: "anchor list \<Rightarrow> error + anchor list" where
  "filter_blank [] = Inr []"
| "filter_blank (a # as) =
     (case blank_without_noopener a of
        Inl e \<Rightarrow> Inl e
      | Inr b \<Rightarrow>
          (case filter_blank as of
             Inl e \<Rightarrow> Inl e
           | Inr kept \<Rightarrow> Inr (if b then a # kept else kept)))"

text \<open>
  Lines 61 to 68, the second \<^verbatim>\<open>filter\<close>. Its callback pushes onto the array
  \<^verbatim>\<open>warnings\<close> of the enclosing call, which is threaded through as the last argument and
  returned.
\<close>

fun filter_cross_origin ::
  "url_parser \<Rightarrow> string \<Rightarrow> anchor list \<Rightarrow> string list \<Rightarrow> anchor list \<times> string list" where
  "filter_cross_origin URL_host pageHost [] ws = ([], ws)"
| "filter_cross_origin URL_host pageHost (a # as) ws =
     (case URL_host (js_string (href a)) of
        Some h \<Rightarrow>
          (let (kept, ws') = filter_cross_origin URL_host pageHost as ws
           in (if h \<noteq> pageHost then a # kept else kept, ws'))
      | None \<Rightarrow>
          (let (kept, ws') =
             filter_cross_origin URL_host pageHost as (ws @ [str_warning (outerHTML a)])
           in (a # kept, ws')))"

text \<open>Lines 69 to 71, the callback of the third \<^verbatim>\<open>filter\<close>.\<close>

definition http_or_no_href :: "anchor \<Rightarrow> bool" where
  "http_or_no_href a =
     (js_not (href a) \<or> startsWith (toLowerCase (js_string (href a))) ''http'')"

text \<open>Lines 72 to 79, the callback of \<^verbatim>\<open>map\<close>.\<close>

definition to_summary :: "anchor \<Rightarrow> summary" where
  "to_summary a =
     \<lparr>href = js_or (href a) ''Unknown'',
      target = js_or (target a) '''',
      rel = js_or (rel a) '''',
      outerHTML = js_or (outerHTML a) ''''\<rparr>"

text \<open>
  Lines 55 and 57 to 71: the array \<^verbatim>\<open>warnings\<close> starts empty, and the three filters
  run one after the other, each over the whole output of the one before. The result is the
  anchors that reach \<^verbatim>\<open>map\<close>, with the warnings collected.
\<close>

definition unsafe_anchors ::
  "url_parser \<Rightarrow> string \<Rightarrow> anchor list \<Rightarrow> error + (anchor list \<times> string list)" where
  "unsafe_anchors URL_host pageHost anchors =
     (case filter_blank anchors of
        Inl e \<Rightarrow> Inl e
      | Inr blank \<Rightarrow>
          (let (cross, ws) = filter_cross_origin URL_host pageHost blank []
           in Inr (filter http_or_no_href cross, ws)))"

text \<open>The whole of \<^verbatim>\<open>audit\<close>; \<^verbatim>\<open>Number(b)\<close> is 1 for true and 0 for false.\<close>

definition audit :: "url_parser \<Rightarrow> artifacts \<Rightarrow> error + product" where
  "audit URL_host arts =
     (case URL_host (finalUrl arts) of
        None \<Rightarrow> Inl Invalid_URL
      | Some pageHost \<Rightarrow>
          (case unsafe_anchors URL_host pageHost (AnchorElements arts) of
             Inl e \<Rightarrow> Inl e
           | Inr (kept, ws) \<Rightarrow>
               (let failing = map to_summary kept
                in Inr \<lparr>score = (if length failing = 0 then 1 else 0),
                        failingAnchors = failing,
                        warnings = ws\<rparr>)))"

text \<open>
  The anchors the callback of \<^verbatim>\<open>map\<close> is called on, in a call of \<^verbatim>\<open>audit\<close>: the
  output of the third filter (none when the call throws before). They are the anchors that
  \<^verbatim>\<open>failingAnchors\<close> reports, before they are summarised.
\<close>

definition kept_anchors :: "url_parser \<Rightarrow> artifacts \<Rightarrow> anchor list" where
  "kept_anchors URL_host arts =
     (case URL_host (finalUrl arts) of
        None \<Rightarrow> []
      | Some pageHost \<Rightarrow>
          (case unsafe_anchors URL_host pageHost (AnchorElements arts) of
             Inl e \<Rightarrow> []
           | Inr (kept, ws) \<Rightarrow> kept))"

subsection \<open>The state behind the messages\<close>







subsection \<open>A parser for the examples\<close>

text \<open>
  The examples need a concrete parser. This one covers the few shapes they use, and on
  those it gives what the URL constructor gives without a base: an \<^verbatim>\<open>http\<close> or
  \<^verbatim>\<open>https\<close> URL with a plain, non-empty host has that host; a \<^verbatim>\<open>mailto:\<close> URL has the
  empty host; a string with no scheme is rejected, and so is an \<^verbatim>\<open>http\<close> URL with an
  empty host.
\<close>

definition plain_host :: "string \<Rightarrow> string option" where
  "plain_host r =
     (let h = takeWhile (\<lambda>c. c \<notin> set ''/?#'') r
      in if h = [] \<or> \<not> list_all (\<lambda>c. c \<in> set ''abcdefghijklmnopqrstuvwxyz0123456789.-'') h
         then None else Some h)"

definition example_URL_host :: url_parser where
  "example_URL_host s =
     (if prefix ''https://'' s then plain_host (drop 8 s)
      else if prefix ''http://'' s then plain_host (drop 7 s)
      else if prefix ''mailto:'' s then Some []
      else None)"

text \<open>
  The page \<^verbatim>\<open>https://a.com\<close> with eight anchors, and the product of the call on it.
\<close>

definition anchor_cross_origin :: anchor where
  "anchor_cross_origin =
     \<lparr>href = Some ''https://b.com/x'', target = Some ''_blank'', rel = Some '''',
      outerHTML = None\<rparr>"

definition anchor_noopener :: anchor where
  "anchor_noopener =
     \<lparr>href = Some ''https://b.com'', target = Some ''_blank'', rel = Some ''noopener nofollow'',
      outerHTML = None\<rparr>"

definition anchor_same_host :: anchor where
  "anchor_same_host =
     \<lparr>href = Some ''https://a.com/page'', target = Some ''_blank'', rel = Some '''',
      outerHTML = None\<rparr>"

definition anchor_not_a_url :: anchor where
  "anchor_not_a_url =
     \<lparr>href = Some ''not a url'', target = Some ''_blank'', rel = Some '''',
      outerHTML = Some ''<a>''\<rparr>"

definition anchor_mailto :: anchor where
  "anchor_mailto =
     \<lparr>href = Some ''mailto:x@b.com'', target = Some ''_blank'', rel = Some '''',
      outerHTML = None\<rparr>"

definition anchor_no_href :: anchor where
  "anchor_no_href =
     \<lparr>href = None, target = Some ''_blank'', rel = Some '''',
      outerHTML = Some ''<a target=_blank>''\<rparr>"

definition anchor_empty_host :: anchor where
  "anchor_empty_host =
     \<lparr>href = Some ''http://'', target = Some ''_blank'', rel = Some ''nofollow'',
      outerHTML = Some ''<a href=http://>''\<rparr>"

definition anchor_self :: anchor where
  "anchor_self =
     \<lparr>href = Some ''https://c.com'', target = Some ''_self'', rel = None,
      outerHTML = None\<rparr>"

definition example_artifacts :: artifacts where
  "example_artifacts =
     \<lparr>finalUrl = ''https://a.com'',
      AnchorElements =
        [anchor_cross_origin, anchor_noopener, anchor_same_host, anchor_not_a_url,
         anchor_mailto, anchor_no_href, anchor_empty_host, anchor_self]\<rparr>"

definition example_product :: product where
  "example_product =
     \<lparr>score = 0,
      failingAnchors =
        [\<lparr>href = ''https://b.com/x'', target = ''_blank'', rel = '''', outerHTML = ''''\<rparr>,
         \<lparr>href = ''Unknown'', target = ''_blank'', rel = '''',
          outerHTML = ''<a target=_blank>''\<rparr>,
         \<lparr>href = ''http://'', target = ''_blank'', rel = ''nofollow'',
          outerHTML = ''<a href=http://>''\<rparr>],
      warnings =
        [str_warning (Some ''<a>''), str_warning (Some ''<a target=_blank>''),
         str_warning (Some ''<a href=http://>'')]\<rparr>"







section \<open>Properties\<close>

subsection \<open>The filter chain in closed form\<close>

text \<open>The three predicates, for an anchor whose \<^verbatim>\<open>rel\<close> can be read.\<close>

definition stage_A :: "anchor \<Rightarrow> bool" where
  "stage_A a = (blank_without_noopener a = Inr True)"

definition unparsable :: "url_parser \<Rightarrow> anchor \<Rightarrow> bool" where
  "unparsable URL_host a = (URL_host (js_string (href a)) = None)"

definition stage_B :: "url_parser \<Rightarrow> string \<Rightarrow> anchor \<Rightarrow> bool" where
  "stage_B URL_host pageHost a = (URL_host (js_string (href a)) \<noteq> Some pageHost)"





lemma filter_blank_Inr:
  "filter_blank as = Inr kept \<Longrightarrow> kept = filter stage_A as"
proof (induction as arbitrary: kept)
  case Nil
  then show ?case by simp
next
  case (Cons a as)
  from Cons.prems obtain b ks where
    b: "blank_without_noopener a = Inr b" and ks: "filter_blank as = Inr ks"
    and kept: "kept = (if b then a # ks else ks)"
    by (auto split: sum.splits)
  from Cons.IH [OF ks] have ih: "ks = filter stage_A as" .
  from b have "stage_A a = b" by (simp add: stage_A_def)
  with ih kept show ?case by simp
qed

lemma filter_blank_Inl:
  "filter_blank as = Inl e \<Longrightarrow>
     e = TypeError_rel_undefined \<and> (\<exists>a \<in> set as. target a = Some ''_blank'' \<and> rel a = None)"
proof (induction as)
  case Nil
  then show ?case by simp
next
  case (Cons a as)
  show ?case
  proof (cases "blank_without_noopener a")
    case (Inl e')
    then have "target a = Some ''_blank'' \<and> rel a = None \<and> e' = TypeError_rel_undefined"
      by (auto simp: blank_without_noopener_def split: if_splits option.splits)
    with Inl Cons.prems show ?thesis by simp
  next
    case (Inr b)
    with Cons.prems have "filter_blank as = Inl e"
      by (simp split: sum.splits)
    from Cons.IH [OF this] show ?thesis by auto
  qed
qed

lemma filter_blank_total:
  "\<forall>a \<in> set as. target a = Some ''_blank'' \<longrightarrow> rel a \<noteq> None \<Longrightarrow>
     filter_blank as = Inr (filter stage_A as)"
proof (cases "filter_blank as")
  case (Inl e)
  assume "\<forall>a \<in> set as. target a = Some ''_blank'' \<longrightarrow> rel a \<noteq> None"
  with filter_blank_Inl [OF Inl] show ?thesis by blast
next
  case (Inr kept)
  with filter_blank_Inr [OF Inr] show ?thesis by simp
qed

lemma filter_cross_origin_closed:
  "filter_cross_origin URL_host pageHost as ws =
     (filter (stage_B URL_host pageHost) as,
      ws @ map (\<lambda>a. str_warning (outerHTML a)) (filter (unparsable URL_host) as))"
  by (induction as arbitrary: ws)
     (auto simp: stage_B_def unparsable_def split: option.splits)

lemma unsafe_anchors_Inr:
  assumes "unsafe_anchors URL_host pageHost as = Inr (kept, ws)"
  shows "kept = filter (\<lambda>a. stage_A a \<and> stage_B URL_host pageHost a \<and> http_or_no_href a) as"
    and "ws = map (\<lambda>a. str_warning (outerHTML a))
                (filter (\<lambda>a. stage_A a \<and> unparsable URL_host a) as)"
proof -
  from assms obtain blank where blank: "filter_blank as = Inr blank"
    by (auto simp: unsafe_anchors_def split: sum.splits)
  have b: "blank = filter stage_A as" by (rule filter_blank_Inr [OF blank])
  from assms blank have
    "kept = filter http_or_no_href (fst (filter_cross_origin URL_host pageHost blank []))"
    "ws = snd (filter_cross_origin URL_host pageHost blank [])"
    by (auto simp: unsafe_anchors_def split: prod.splits)
  then show
    "kept = filter (\<lambda>a. stage_A a \<and> stage_B URL_host pageHost a \<and> http_or_no_href a) as"
    "ws = map (\<lambda>a. str_warning (outerHTML a))
            (filter (\<lambda>a. stage_A a \<and> unparsable URL_host a) as)"
    by (simp_all add: filter_cross_origin_closed b)
qed

subsection \<open>What a call returns\<close>

lemma stage_A_iff:
  "stage_A a \<longleftrightarrow>
     target a = Some ''_blank'' \<and>
     (\<exists>s. rel a = Some s \<and> \<not> js_includes s ''noopener'' \<and> \<not> js_includes s ''noreferrer'')"
  by (auto simp: stage_A_def blank_without_noopener_def split: option.splits)

lemma audit_Inr:
  assumes "audit URL_host arts = Inr r"
  obtains pageHost where
    "URL_host (finalUrl arts) = Some pageHost"
    "unsafe_anchors URL_host pageHost (AnchorElements arts) =
       Inr (kept_anchors URL_host arts, warnings r)"
    "failingAnchors r = map to_summary (kept_anchors URL_host arts)"
    "score r = (if failingAnchors r = [] then 1 else 0)"
proof -
  from assms obtain pageHost where ph: "URL_host (finalUrl arts) = Some pageHost"
    by (auto simp: audit_def split: option.splits)
  from assms ph obtain kept ws where
    u: "unsafe_anchors URL_host pageHost (AnchorElements arts) = Inr (kept, ws)"
    by (auto simp: audit_def split: sum.splits)
  from assms ph u have r: "r = \<lparr>score = (if length (map to_summary kept) = 0 then 1 else 0),
      failingAnchors = map to_summary kept, warnings = ws\<rparr>"
    by (simp add: audit_def Let_def)
  from ph u have k: "kept_anchors URL_host arts = kept"
    by (simp add: kept_anchors_def)
  show thesis
  proof (rule that [OF ph])
    show "unsafe_anchors URL_host pageHost (AnchorElements arts) =
       Inr (kept_anchors URL_host arts, warnings r)"
      using u k r by simp
    show "failingAnchors r = map to_summary (kept_anchors URL_host arts)"
      using k r by simp
    show "score r = (if failingAnchors r = [] then 1 else 0)"
      using r by simp
  qed
qed

lemma audit_closed:
  assumes "audit URL_host arts = Inr r"
  obtains pageHost where
    "URL_host (finalUrl arts) = Some pageHost"
    "kept_anchors URL_host arts =
       filter (\<lambda>a. stage_A a \<and> stage_B URL_host pageHost a \<and> http_or_no_href a)
         (AnchorElements arts)"
    "warnings r = map (\<lambda>a. str_warning (outerHTML a))
       (filter (\<lambda>a. stage_A a \<and> unparsable URL_host a) (AnchorElements arts))"
    "failingAnchors r = map to_summary (kept_anchors URL_host arts)"
proof -
  from assms obtain pageHost where
    ph: "URL_host (finalUrl arts) = Some pageHost" and
    u: "unsafe_anchors URL_host pageHost (AnchorElements arts) =
       Inr (kept_anchors URL_host arts, warnings r)" and
    f: "failingAnchors r = map to_summary (kept_anchors URL_host arts)"
    by (rule audit_Inr)
  from unsafe_anchors_Inr [OF u] ph f show thesis
    by (intro that) simp_all
qed

lemma audit_total:
  assumes "URL_host (finalUrl arts) = Some pageHost"
    and "\<forall>a \<in> set (AnchorElements arts). target a = Some ''_blank'' \<longrightarrow> rel a \<noteq> None"
  shows "\<exists>r. audit URL_host arts = Inr r"
proof -
  from filter_blank_total [OF assms(2)] obtain kept ws where
    "unsafe_anchors URL_host pageHost (AnchorElements arts) = Inr (kept, ws)"
    by (auto simp: unsafe_anchors_def filter_cross_origin_closed)
  with assms(1) show ?thesis by (simp add: audit_def Let_def)
qed

lemma audit_Inl:
  assumes "audit URL_host arts = Inl e"
  shows "(e = Invalid_URL \<and> URL_host (finalUrl arts) = None) \<or>
         (e = TypeError_rel_undefined \<and> URL_host (finalUrl arts) \<noteq> None \<and>
          (\<exists>a \<in> set (AnchorElements arts). target a = Some ''_blank'' \<and> rel a = None))"
proof (cases "URL_host (finalUrl arts)")
  case None
  with assms show ?thesis by (simp add: audit_def)
next
  case (Some pageHost)
  with assms have "\<exists>e'. filter_blank (AnchorElements arts) = Inl e' \<and> e' = e"
    by (auto simp: audit_def unsafe_anchors_def Let_def split: sum.splits prod.splits)
  then have "filter_blank (AnchorElements arts) = Inl e" by simp
  from filter_blank_Inl [OF this] Some show ?thesis by simp
qed

lemma sublist_str_warning: "sublist h (str_warning (Some h))"
  unfolding str_warning_def js_string_def by (simp only: option.case sublist_appendI)

lemma kept_anchors_subseq: "subseq (kept_anchors URL_host arts) (AnchorElements arts)"
proof (cases "audit URL_host arts")
  case (Inl e)
  then have "kept_anchors URL_host arts = []"
    by (auto simp: audit_def kept_anchors_def split: option.splits sum.splits)
  then show ?thesis by simp
next
  case (Inr r)
  then show ?thesis by (rule audit_closed) simp
qed

subsection \<open>The body with the state of the messages\<close>
















subsection \<open>The example call\<close>

lemmas example_defs =
  audit_def unsafe_anchors_def kept_anchors_def blank_without_noopener_def
  http_or_no_href_def to_summary_def js_string_def js_or_def js_not_def js_includes_def
  startsWith_def toLowerCase_def lower_char_def example_URL_host_def plain_host_def
  stage_A_def stage_B_def unparsable_def sublist_code(3)

lemmas example_anchors =
  anchor_cross_origin_def anchor_noopener_def anchor_same_host_def anchor_not_a_url_def
  anchor_mailto_def anchor_no_href_def anchor_empty_host_def anchor_self_def

lemma audit_example: "audit example_URL_host example_artifacts = Inr example_product"
  by (simp add: example_artifacts_def example_product_def example_anchors example_defs)

lemma kept_example:
  "kept_anchors example_URL_host example_artifacts =
     [anchor_cross_origin, anchor_no_href, anchor_empty_host]"
  by (simp add: example_artifacts_def example_anchors example_defs)







section \<open>The claims\<close>

text \<open>
  C1, as amended. In a call that returns, the warnings are, in input order, one
  message for each anchor that passes the first filter (target \<^verbatim>\<open>_blank\<close>, \<^verbatim>\<open>rel\<close>
  with neither \<^verbatim>\<open>noopener\<close> nor \<^verbatim>\<open>noreferrer\<close>) and whose \<^verbatim>\<open>href\<close> the URL constructor
  rejects, and no other. Such an anchor's message is among the warnings and includes
  its \<^verbatim>\<open>outerHTML\<close>; the anchor is reported in \<^verbatim>\<open>failingAnchors\<close> exactly when its
  \<^verbatim>\<open>href\<close> is absent or empty or, in lower case, starts with \<^verbatim>\<open>http\<close>.
\<close>

theorem unparsable_href_warned:
  assumes "audit URL_host arts = Inr r"
  shows "failingAnchors r = map to_summary (kept_anchors URL_host arts) \<and>
         warnings r = map (\<lambda>a. str_warning (outerHTML a))
           (filter (\<lambda>a. stage_A a \<and> unparsable URL_host a) (AnchorElements arts)) \<and>
         (\<forall>a \<in> set (AnchorElements arts). stage_A a \<and> unparsable URL_host a \<longrightarrow>
            (a \<in> set (kept_anchors URL_host arts) \<longleftrightarrow> http_or_no_href a) \<and>
            str_warning (outerHTML a) \<in> set (warnings r) \<and>
            (\<forall>h. outerHTML a = Some h \<longrightarrow> js_includes (str_warning (outerHTML a)) h))"
proof -
  from assms obtain pageHost where
    k: "kept_anchors URL_host arts =
       filter (\<lambda>a. stage_A a \<and> stage_B URL_host pageHost a \<and> http_or_no_href a)
         (AnchorElements arts)" and
    w: "warnings r = map (\<lambda>a. str_warning (outerHTML a))
       (filter (\<lambda>a. stage_A a \<and> unparsable URL_host a) (AnchorElements arts))" and
    f: "failingAnchors r = map to_summary (kept_anchors URL_host arts)"
    by (rule audit_closed)
  have "(a \<in> set (kept_anchors URL_host arts) \<longleftrightarrow> http_or_no_href a) \<and>
        str_warning (outerHTML a) \<in> set (warnings r) \<and>
        (\<forall>h. outerHTML a = Some h \<longrightarrow> js_includes (str_warning (outerHTML a)) h)"
    if a: "a \<in> set (AnchorElements arts)" and sa: "stage_A a" and u: "unparsable URL_host a"
    for a
  proof -
    from u have "stage_B URL_host pageHost a" by (simp add: stage_B_def unparsable_def)
    with a sa k have "a \<in> set (kept_anchors URL_host arts) \<longleftrightarrow> http_or_no_href a"
      by simp
    moreover from a sa u w have "str_warning (outerHTML a) \<in> set (warnings r)" by auto
    moreover have "js_includes (str_warning (outerHTML a)) h" if "outerHTML a = Some h" for h
      using that sublist_str_warning [of h] by (simp add: js_includes_def)
    ultimately show ?thesis by blast
  qed
  with f w show ?thesis by blast
qed

text \<open>
  On the example page, the anchor to \<^verbatim>\<open>http://\<close> is rejected by the constructor,
  warned about and reported; the anchor \<^verbatim>\<open>not a url\<close> is warned about and not
  reported.
\<close>

theorem unparsable_href_warned_witness:
  "audit example_URL_host example_artifacts = Inr example_product \<and>
   anchor_empty_host \<in> set (AnchorElements example_artifacts) \<and>
   stage_A anchor_empty_host \<and> unparsable example_URL_host anchor_empty_host \<and>
   http_or_no_href anchor_empty_host \<and>
   anchor_empty_host \<in> set (kept_anchors example_URL_host example_artifacts) \<and>
   anchor_not_a_url \<in> set (AnchorElements example_artifacts) \<and>
   stage_A anchor_not_a_url \<and> unparsable example_URL_host anchor_not_a_url \<and>
   \<not> http_or_no_href anchor_not_a_url \<and>
   anchor_not_a_url \<notin> set (kept_anchors example_URL_host example_artifacts) \<and>
   str_warning (outerHTML anchor_not_a_url) \<in> set (warnings example_product) \<and>
   js_includes (str_warning (outerHTML anchor_not_a_url)) ''<a>''"
proof -
  have a: "anchor_empty_host \<in> set (AnchorElements example_artifacts)"
    "anchor_not_a_url \<in> set (AnchorElements example_artifacts)"
    by (simp_all add: example_artifacts_def)
  have e: "stage_A anchor_empty_host \<and> unparsable example_URL_host anchor_empty_host"
    "http_or_no_href anchor_empty_host"
    by (simp_all add: anchor_empty_host_def example_defs)
  have n: "stage_A anchor_not_a_url \<and> unparsable example_URL_host anchor_not_a_url"
    "\<not> http_or_no_href anchor_not_a_url"
    "outerHTML anchor_not_a_url = Some ''<a>''"
    by (simp_all add: anchor_not_a_url_def example_defs)
  from unparsable_href_warned [OF audit_example] a e n show ?thesis
    using audit_example by blast
qed

text \<open>
  As stated, C1 fails: the anchor with \<^verbatim>\<open>href\<close> \<^verbatim>\<open>not a url\<close> on the page
  \<^verbatim>\<open>https://a.com\<close> is warned about, then removed by the third filter, and
  \<^verbatim>\<open>failingAnchors\<close> is empty.
\<close>

theorem unparsable_href_not_failing_counterexample:
  "example_URL_host ''not a url'' = None \<and>
   audit example_URL_host \<lparr>finalUrl = ''https://a.com'', AnchorElements =
     [\<lparr>href = Some ''not a url'', target = Some ''_blank'', rel = Some '''',
        outerHTML = Some ''<a>''\<rparr>]\<rparr>
     = Inr \<lparr>score = 1, failingAnchors = [], warnings = [str_warning (Some ''<a>'')]\<rparr>"
  by (simp add: example_defs)

text \<open>
  C2. In a call that returns, an anchor whose \<^verbatim>\<open>target\<close> is not the string \<^verbatim>\<open>_blank\<close>,
  or whose \<^verbatim>\<open>rel\<close> includes \<^verbatim>\<open>noopener\<close> or \<^verbatim>\<open>noreferrer\<close>, is not among the anchors
  reported in \<^verbatim>\<open>failingAnchors\<close>, whatever its other properties; nor does its summary
  occur there.
\<close>

theorem safe_target_or_rel_not_failing:
  assumes "audit URL_host arts = Inr r"
    and "target a \<noteq> Some ''_blank'' \<or>
         (\<exists>s. rel a = Some s \<and> (js_includes s ''noopener'' \<or> js_includes s ''noreferrer''))"
  shows "failingAnchors r = map to_summary (kept_anchors URL_host arts) \<and>
         a \<notin> set (kept_anchors URL_host arts) \<and>
         to_summary a \<notin> set (failingAnchors r)"
proof -
  from assms(1) obtain pageHost where
    k: "kept_anchors URL_host arts =
       filter (\<lambda>a. stage_A a \<and> stage_B URL_host pageHost a \<and> http_or_no_href a)
         (AnchorElements arts)" and
    f: "failingAnchors r = map to_summary (kept_anchors URL_host arts)"
    by (rule audit_closed)
  from assms(2) have na: "\<not> stage_A a" by (auto simp: stage_A_iff)
  have "to_summary a \<noteq> to_summary b" if "stage_A b" for b
  proof
    assume eq: "to_summary a = to_summary b"
    from that obtain s where b: "target b = Some ''_blank''" "rel b = Some s"
      "\<not> js_includes s ''noopener''" "\<not> js_includes s ''noreferrer''"
      by (auto simp: stage_A_iff)
    from eq have t: "js_or (target a) [] = js_or (target b) []"
      and r: "js_or (rel a) [] = js_or (rel b) []"
      by (simp_all add: to_summary_def)
    from t b have ta: "target a = Some ''_blank''"
      by (auto simp: js_or_def split: option.splits if_splits)
    with assms(2) obtain s' where a: "rel a = Some s'"
      "js_includes s' ''noopener'' \<or> js_includes s' ''noreferrer''" by auto
    then have "s' \<noteq> []" by (auto simp: js_includes_def)
    with r a b have "s' = s" by (auto simp: js_or_def split: if_splits)
    with a b show False by simp
  qed
  with k f na show ?thesis by auto
qed

text \<open>
  The anchor of the example with \<^verbatim>\<open>rel\<close> \<^verbatim>\<open>noopener nofollow\<close>.
\<close>

theorem safe_target_or_rel_not_failing_witness:
  "audit example_URL_host example_artifacts = Inr example_product \<and>
   rel anchor_noopener = Some ''noopener nofollow'' \<and>
   js_includes ''noopener nofollow'' ''noopener'' \<and>
   anchor_noopener \<in> set (AnchorElements example_artifacts) \<and>
   anchor_noopener \<notin> set (kept_anchors example_URL_host example_artifacts) \<and>
   to_summary anchor_noopener \<notin> set (failingAnchors example_product)"
proof -
  have r: "rel anchor_noopener = Some ''noopener nofollow''"
    by (simp add: anchor_noopener_def)
  have i: "js_includes ''noopener nofollow'' ''noopener''"
    by (simp add: js_includes_def sublist_code(3))
  have m: "anchor_noopener \<in> set (AnchorElements example_artifacts)"
    by (simp add: example_artifacts_def)
  from r i have "target anchor_noopener \<noteq> Some ''_blank'' \<or>
    (\<exists>s. rel anchor_noopener = Some s \<and>
       (js_includes s ''noopener'' \<or> js_includes s ''noreferrer''))"
    by simp
  from safe_target_or_rel_not_failing [OF audit_example this] audit_example r i m
  show ?thesis by blast
qed

text \<open>
  C3. In a call that returns, an anchor whose \<^verbatim>\<open>href\<close> parses to a URL with the host
  of the page's \<^verbatim>\<open>finalUrl\<close> is not among the anchors reported in \<^verbatim>\<open>failingAnchors\<close>.
\<close>

theorem same_host_not_failing:
  assumes "audit URL_host arts = Inr r"
    and "URL_host (finalUrl arts) = Some h"
    and "URL_host (js_string (href a)) = Some h"
  shows "failingAnchors r = map to_summary (kept_anchors URL_host arts) \<and>
         a \<notin> set (kept_anchors URL_host arts)"
proof -
  from assms(1) obtain pageHost where
    "URL_host (finalUrl arts) = Some pageHost" and
    k: "kept_anchors URL_host arts =
       filter (\<lambda>a. stage_A a \<and> stage_B URL_host pageHost a \<and> http_or_no_href a)
         (AnchorElements arts)" and
    f: "failingAnchors r = map to_summary (kept_anchors URL_host arts)"
    by (rule audit_closed)
  with assms(2,3) have "\<not> stage_B URL_host pageHost a" by (simp add: stage_B_def)
  with k f show ?thesis by simp
qed

text \<open>
  The anchor of the example to \<^verbatim>\<open>https://a.com/page\<close>.
\<close>

theorem same_host_not_failing_witness:
  "audit example_URL_host example_artifacts = Inr example_product \<and>
   example_URL_host (finalUrl example_artifacts) = Some ''a.com'' \<and>
   example_URL_host (js_string (href anchor_same_host)) = Some ''a.com'' \<and>
   anchor_same_host \<in> set (AnchorElements example_artifacts) \<and>
   anchor_same_host \<notin> set (kept_anchors example_URL_host example_artifacts)"
proof -
  have p: "example_URL_host (finalUrl example_artifacts) = Some ''a.com''"
    by (simp add: example_artifacts_def example_defs)
  have h: "example_URL_host (js_string (href anchor_same_host)) = Some ''a.com''"
    by (simp add: anchor_same_host_def example_defs)
  have m: "anchor_same_host \<in> set (AnchorElements example_artifacts)"
    by (simp add: example_artifacts_def)
  from same_host_not_failing [OF audit_example p h] audit_example p h m
  show ?thesis by simp
qed

text \<open>
  C4. In a call that returns, an anchor with a non-empty \<^verbatim>\<open>href\<close> that, in lower case,
  does not start with \<^verbatim>\<open>http\<close> is not among the anchors reported in
  \<^verbatim>\<open>failingAnchors\<close>, whatever its target, \<^verbatim>\<open>rel\<close> and host.
\<close>

theorem non_http_href_not_failing:
  assumes "audit URL_host arts = Inr r"
    and "href a = Some h" and "h \<noteq> []"
    and "\<not> startsWith (toLowerCase h) ''http''"
  shows "failingAnchors r = map to_summary (kept_anchors URL_host arts) \<and>
         a \<notin> set (kept_anchors URL_host arts)"
proof -
  from assms(1) obtain pageHost where
    k: "kept_anchors URL_host arts =
       filter (\<lambda>a. stage_A a \<and> stage_B URL_host pageHost a \<and> http_or_no_href a)
         (AnchorElements arts)" and
    f: "failingAnchors r = map to_summary (kept_anchors URL_host arts)"
    by (rule audit_closed)
  from assms(2-4) have "\<not> http_or_no_href a"
    by (simp add: http_or_no_href_def js_not_def js_string_def)
  with k f show ?thesis by simp
qed

text \<open>
  The anchor of the example to \<^verbatim>\<open>mailto:x@b.com\<close>, whose host differs from the page's.
\<close>

theorem non_http_href_not_failing_witness:
  "audit example_URL_host example_artifacts = Inr example_product \<and>
   href anchor_mailto = Some ''mailto:x@b.com'' \<and>
   \<not> startsWith (toLowerCase ''mailto:x@b.com'') ''http'' \<and>
   example_URL_host ''mailto:x@b.com'' \<noteq> example_URL_host (finalUrl example_artifacts) \<and>
   anchor_mailto \<in> set (AnchorElements example_artifacts) \<and>
   anchor_mailto \<notin> set (kept_anchors example_URL_host example_artifacts)"
proof -
  have h: "href anchor_mailto = Some ''mailto:x@b.com''"
    by (simp add: anchor_mailto_def)
  have ne: "''mailto:x@b.com'' \<noteq> []" by simp
  have s: "\<not> startsWith (toLowerCase ''mailto:x@b.com'') ''http''"
    by (simp add: example_defs)
  have x: "example_URL_host ''mailto:x@b.com'' \<noteq> example_URL_host (finalUrl example_artifacts)"
    by (simp add: example_artifacts_def example_defs)
  have m: "anchor_mailto \<in> set (AnchorElements example_artifacts)"
    by (simp add: example_artifacts_def)
  from non_http_href_not_failing [OF audit_example h ne s] audit_example h s x m
  show ?thesis by simp
qed

text \<open>
  C5. The score returned is 1 if and only if \<^verbatim>\<open>failingAnchors\<close> is empty, and 0 if and
  only if it is not.
\<close>

theorem score_binary:
  assumes "audit URL_host arts = Inr r"
  shows "(score r = 1 \<longleftrightarrow> failingAnchors r = []) \<and>
         (score r = 0 \<longleftrightarrow> failingAnchors r \<noteq> [])"
  using assms by (rule audit_Inr) simp

text \<open>
  The example call reports three anchors and scores 0.
\<close>

theorem score_binary_witness:
  "audit example_URL_host example_artifacts = Inr example_product \<and>
   score example_product = 0 \<and> failingAnchors example_product \<noteq> []"
  using score_binary [OF audit_example] audit_example
  by (simp add: example_product_def)

text \<open>
  C6. \<^verbatim>\<open>failingAnchors\<close> is the list of the summaries of the anchors that pass the
  three filters. The summary of such an anchor has the anchor's \<^verbatim>\<open>href\<close>, or
  \<^verbatim>\<open>Unknown\<close> when that is absent or empty, and the anchor's \<^verbatim>\<open>target\<close>, \<^verbatim>\<open>rel\<close> and
  \<^verbatim>\<open>outerHTML\<close>, or the empty string when absent. In particular an anchor with target
  \<^verbatim>\<open>_blank\<close>, empty \<^verbatim>\<open>rel\<close> and no \<^verbatim>\<open>href\<close> (which the URL constructor rejects) is
  reported, with the summary \<^verbatim>\<open>href\<close> \<^verbatim>\<open>Unknown\<close>.
\<close>

theorem summary_fields:
  assumes "audit URL_host arts = Inr r"
  shows "failingAnchors r = map to_summary (kept_anchors URL_host arts) \<and>
         (\<forall>a \<in> set (kept_anchors URL_host arts).
            href (to_summary a) =
              (case href a of None \<Rightarrow> ''Unknown''
               | Some h \<Rightarrow> if h = [] then ''Unknown'' else h) \<and>
            target (to_summary a) = (case target a of None \<Rightarrow> [] | Some t \<Rightarrow> t) \<and>
            rel (to_summary a) = (case rel a of None \<Rightarrow> [] | Some s \<Rightarrow> s) \<and>
            outerHTML (to_summary a) = (case outerHTML a of None \<Rightarrow> [] | Some h \<Rightarrow> h)) \<and>
         (\<forall>a \<in> set (AnchorElements arts).
            target a = Some ''_blank'' \<and> rel a = Some [] \<and> js_not (href a) \<and>
            unparsable URL_host a \<longrightarrow>
              a \<in> set (kept_anchors URL_host arts) \<and>
              href (to_summary a) = ''Unknown'' \<and>
              to_summary a \<in> set (failingAnchors r))"
proof -
  from assms obtain pageHost where
    k: "kept_anchors URL_host arts =
       filter (\<lambda>a. stage_A a \<and> stage_B URL_host pageHost a \<and> http_or_no_href a)
         (AnchorElements arts)" and
    f: "failingAnchors r = map to_summary (kept_anchors URL_host arts)"
    by (rule audit_closed)
  have fields: "href (to_summary a) =
              (case href a of None \<Rightarrow> ''Unknown''
               | Some h \<Rightarrow> if h = [] then ''Unknown'' else h) \<and>
            target (to_summary a) = (case target a of None \<Rightarrow> [] | Some t \<Rightarrow> t) \<and>
            rel (to_summary a) = (case rel a of None \<Rightarrow> [] | Some s \<Rightarrow> s) \<and>
            outerHTML (to_summary a) = (case outerHTML a of None \<Rightarrow> [] | Some h \<Rightarrow> h)"
    for a :: anchor
    by (simp add: to_summary_def js_or_def split: option.splits)
  have part: "a \<in> set (kept_anchors URL_host arts) \<and> href (to_summary a) = ''Unknown'' \<and>
      to_summary a \<in> set (failingAnchors r)"
    if a: "a \<in> set (AnchorElements arts)" and t: "target a = Some ''_blank''"
      and s: "rel a = Some []" and h: "js_not (href a)" and u: "unparsable URL_host a"
    for a
  proof -
    from t s have "stage_A a" by (simp add: stage_A_iff js_includes_def)
    moreover from u have "stage_B URL_host pageHost a"
      by (simp add: stage_B_def unparsable_def)
    moreover from h have "http_or_no_href a" by (simp add: http_or_no_href_def)
    ultimately have in_k: "a \<in> set (kept_anchors URL_host arts)" using a k by simp
    from h have "href (to_summary a) = ''Unknown''"
      by (simp add: to_summary_def js_or_def js_not_def split: option.splits)
    with in_k f show ?thesis by simp
  qed
  from f fields part show ?thesis by blast
qed

text \<open>
  The anchor of the example with no \<^verbatim>\<open>href\<close>.
\<close>

theorem summary_fields_witness:
  "audit example_URL_host example_artifacts = Inr example_product \<and>
   anchor_no_href \<in> set (AnchorElements example_artifacts) \<and>
   target anchor_no_href = Some ''_blank'' \<and> rel anchor_no_href = Some [] \<and>
   js_not (href anchor_no_href) \<and> unparsable example_URL_host anchor_no_href \<and>
   anchor_no_href \<in> set (kept_anchors example_URL_host example_artifacts) \<and>
   to_summary anchor_no_href =
     \<lparr>href = ''Unknown'', target = ''_blank'', rel = '''', outerHTML = ''<a target=_blank>''\<rparr> \<and>
   to_summary anchor_no_href \<in> set (failingAnchors example_product)"
proof -
  have a: "anchor_no_href \<in> set (AnchorElements example_artifacts)"
    by (simp add: example_artifacts_def)
  have c: "target anchor_no_href = Some ''_blank'' \<and> rel anchor_no_href = Some [] \<and>
    js_not (href anchor_no_href) \<and> unparsable example_URL_host anchor_no_href"
    by (simp add: anchor_no_href_def example_defs)
  have s: "to_summary anchor_no_href =
     \<lparr>href = ''Unknown'', target = ''_blank'', rel = '''', outerHTML = ''<a target=_blank>''\<rparr>"
    by (simp add: anchor_no_href_def example_defs)
  from summary_fields [OF audit_example] a c s show ?thesis
    using audit_example by blast
qed

text \<open>
  C7. In the declared type of the input every anchor has a \<^verbatim>\<open>rel\<close> string; the theorem
  needs it of the anchors with target \<^verbatim>\<open>_blank\<close> only. For every such input: if the
  page's \<^verbatim>\<open>finalUrl\<close> parses, the call returns a product, in which every anchor that
  passes the first filter and whose \<^verbatim>\<open>href\<close> is rejected has been kept by the second
  filter and warned about, and the other anchors have been processed as usual; if the
  \<^verbatim>\<open>finalUrl\<close> does not parse, the call throws the constructor's exception, the only
  one that reaches the caller.
\<close>

theorem audit_no_exception:
  assumes "\<forall>a \<in> set (AnchorElements arts). target a = Some ''_blank'' \<longrightarrow> rel a \<noteq> None"
  shows "case URL_host (finalUrl arts) of
           None \<Rightarrow> audit URL_host arts = Inl Invalid_URL
         | Some pageHost \<Rightarrow>
             (\<exists>r. audit URL_host arts = Inr r \<and>
                failingAnchors r = map to_summary
                  (filter (\<lambda>a. stage_A a \<and> stage_B URL_host pageHost a \<and> http_or_no_href a)
                     (AnchorElements arts)) \<and>
                warnings r = map (\<lambda>a. str_warning (outerHTML a))
                  (filter (\<lambda>a. stage_A a \<and> unparsable URL_host a) (AnchorElements arts)))"
proof (cases "URL_host (finalUrl arts)")
  case None
  then show ?thesis by (simp add: audit_def)
next
  case (Some pageHost)
  from Some assms have "\<exists>r. audit URL_host arts = Inr r" by (rule audit_total)
  then obtain r where r: "audit URL_host arts = Inr r" ..
  from r Some have "failingAnchors r = map to_summary
                  (filter (\<lambda>a. stage_A a \<and> stage_B URL_host pageHost a \<and> http_or_no_href a)
                     (AnchorElements arts)) \<and>
                warnings r = map (\<lambda>a. str_warning (outerHTML a))
                  (filter (\<lambda>a. stage_A a \<and> unparsable URL_host a) (AnchorElements arts))"
    by (elim audit_closed) simp
  with r Some show ?thesis by simp
qed

text \<open>
  In the example every anchor with target \<^verbatim>\<open>_blank\<close> has a \<^verbatim>\<open>rel\<close>, and the call
  returns.
\<close>

theorem audit_no_exception_witness:
  "filter (\<lambda>a. target a = Some ''_blank'' \<and> rel a = None)
     (AnchorElements example_artifacts) = [] \<and>
   example_URL_host (finalUrl example_artifacts) = Some ''a.com'' \<and>
   (\<exists>r. audit example_URL_host example_artifacts = Inr r \<and>
      length (failingAnchors r) = 3 \<and> length (warnings r) = 3)"
proof -
  have f: "filter (\<lambda>a. target a = Some ''_blank'' \<and> rel a = None)
     (AnchorElements example_artifacts) = []"
    by (simp add: example_artifacts_def example_anchors)
  then have t: "\<forall>a \<in> set (AnchorElements example_artifacts).
      target a = Some ''_blank'' \<longrightarrow> rel a \<noteq> None"
    by (auto simp: filter_empty_conv)
  have p: "example_URL_host (finalUrl example_artifacts) = Some ''a.com''"
    by (simp add: example_artifacts_def example_defs)
  from audit_no_exception [OF t, of example_URL_host] p
  obtain r where "audit example_URL_host example_artifacts = Inr r" by auto
  with audit_example f p show ?thesis by (simp add: example_product_def)
qed

text \<open>
  Outside the declared type, an anchor with target \<^verbatim>\<open>_blank\<close> and no \<^verbatim>\<open>rel\<close> property
  makes the first filter throw.
\<close>

lemma audit_rel_absent_throws:
  "audit example_URL_host \<lparr>finalUrl = ''https://a.com'', AnchorElements =
     [\<lparr>href = Some ''https://b.com/x'', target = Some ''_blank'', rel = None,
        outerHTML = Some ''<a>''\<rparr>]\<rparr>
     = Inl TypeError_rel_undefined"
  by (simp add: example_defs)

text \<open>
  C8. \<^verbatim>\<open>failingAnchors\<close> is the list of the summaries of the input anchors that
  satisfy the three filter predicates, in the order of the input: the reported anchors
  are the input list filtered by the conjunction of the predicates, hence a
  subsequence of it.
\<close>

theorem failingAnchors_stable_filter:
  assumes "audit URL_host arts = Inr r"
  shows "\<exists>pageHost. URL_host (finalUrl arts) = Some pageHost \<and>
           kept_anchors URL_host arts =
             filter (\<lambda>a. stage_A a \<and> stage_B URL_host pageHost a \<and> http_or_no_href a)
               (AnchorElements arts) \<and>
           failingAnchors r = map to_summary (kept_anchors URL_host arts) \<and>
           subseq (kept_anchors URL_host arts) (AnchorElements arts)"
  using assms by (rule audit_closed) (simp add: kept_anchors_subseq)

text \<open>
  The three anchors the example call reports, in input order.
\<close>

theorem failingAnchors_stable_filter_witness:
  "audit example_URL_host example_artifacts = Inr example_product \<and>
   kept_anchors example_URL_host example_artifacts =
     [anchor_cross_origin, anchor_no_href, anchor_empty_host] \<and>
   failingAnchors example_product =
     [to_summary anchor_cross_origin, to_summary anchor_no_href, to_summary anchor_empty_host] \<and>
   subseq [anchor_cross_origin, anchor_no_href, anchor_empty_host]
     (AnchorElements example_artifacts)"
  using failingAnchors_stable_filter [OF audit_example] audit_example kept_example
  by auto




text \<open>
  C10. A call on a single anchor with target \<^verbatim>\<open>_blank\<close>, a \<^verbatim>\<open>rel\<close> with neither
  \<^verbatim>\<open>noopener\<close> nor \<^verbatim>\<open>noreferrer\<close>, and a non-empty \<^verbatim>\<open>href\<close> that the constructor
  rejects and that does not start with \<^verbatim>\<open>http\<close>, returns the score 1, no failing
  anchor and one warning, about that anchor.
\<close>

theorem warning_without_failing_anchor:
  assumes "URL_host (finalUrl arts) = Some pageHost"
    and "AnchorElements arts = [a]"
    and "target a = Some ''_blank''"
    and "rel a = Some s" and "\<not> js_includes s ''noopener''" and "\<not> js_includes s ''noreferrer''"
    and "href a = Some h" and "h \<noteq> []" and "URL_host h = None"
    and "\<not> startsWith (toLowerCase h) ''http''"
  shows "audit URL_host arts =
           Inr \<lparr>score = 1, failingAnchors = [], warnings = [str_warning (outerHTML a)]\<rparr>"
  using assms
  by (simp add: audit_def unsafe_anchors_def blank_without_noopener_def http_or_no_href_def
      js_not_def js_string_def)

text \<open>
  An anchor to the fragment \<^verbatim>\<open>#top\<close>.
\<close>

theorem warning_without_failing_anchor_witness:
  "example_URL_host ''https://a.com'' = Some ''a.com'' \<and>
   \<not> js_includes ''nofollow'' ''noopener'' \<and> \<not> js_includes ''nofollow'' ''noreferrer'' \<and>
   example_URL_host ''#top'' = None \<and>
   \<not> startsWith (toLowerCase ''#top'') ''http'' \<and>
   audit example_URL_host
     \<lparr>finalUrl = ''https://a.com'',
      AnchorElements = [\<lparr>href = Some ''#top'', target = Some ''_blank'',
        rel = Some ''nofollow'', outerHTML = Some ''<a href=#top target=_blank>''\<rparr>]\<rparr> =
     Inr \<lparr>score = 1, failingAnchors = [],
          warnings = [str_warning (Some ''<a href=#top target=_blank>'')]\<rparr>"
proof -
  have p: "example_URL_host ''https://a.com'' = Some ''a.com''"
    by (simp add: example_defs)
  have i: "\<not> js_includes ''nofollow'' ''noopener''" "\<not> js_includes ''nofollow'' ''noreferrer''"
    by (simp_all add: example_defs)
  have u: "example_URL_host ''#top'' = None" by (simp add: example_defs)
  have s: "\<not> startsWith (toLowerCase ''#top'') ''http''" by (simp add: example_defs)
  from warning_without_failing_anchor [of example_URL_host
      "\<lparr>finalUrl = ''https://a.com'',
      AnchorElements = [\<lparr>href = Some ''#top'', target = Some ''_blank'',
        rel = Some ''nofollow'', outerHTML = Some ''<a href=#top target=_blank>''\<rparr>]\<rparr>"
      "''a.com''"
      "\<lparr>href = Some ''#top'', target = Some ''_blank'',
        rel = Some ''nofollow'', outerHTML = Some ''<a href=#top target=_blank>''\<rparr>"
      "''nofollow''" "''#top''"] p i u s
  show ?thesis by simp
qed

end
